theory Spec2Isabelle
  imports Main "HOL-Library.Sublist"
begin

section \<open>Python text primitives used by db\_operations.py\<close>

text \<open>
  Python \<open>str\<close> values are modelled as \<open>string\<close>; a character stands for a code
  point below 256.  The characters that cannot be typed inside a literal get names of
  their own, and so does the separator.
\<close>

abbreviation quote :: char where "quote \<equiv> CHR 0x27"
abbreviation nl :: char where "nl \<equiv> CHR 0x0A"
abbreviation cr :: char where "cr \<equiv> CHR 0x0D"
abbreviation semi :: char where "semi \<equiv> CHR '';''"

text \<open>\<open>str.isspace\<close> on one character (code points below 256).\<close>

definition isspace :: "char \<Rightarrow> bool" where
  "isspace c = (of_char c \<in> {9, 10, 11, 12, 13, 28, 29, 30, 31, 32, 133, 160 :: nat})"

text \<open>\<open>s.strip()\<close>: whitespace removed at both ends.\<close>

definition py_strip :: "string \<Rightarrow> string" where
  "py_strip s = rev (dropWhile isspace (rev (dropWhile isspace s)))"

text \<open>\<open>s.split(sep)\<close> for a one-character separator: always at least one piece.\<close>

fun split_from :: "char \<Rightarrow> string \<Rightarrow> string \<Rightarrow> string list" where
  "split_from sep cur [] = [rev cur]"
| "split_from sep cur (c # cs) =
     (if c = sep then rev cur # split_from sep [] cs else split_from sep (c # cur) cs)"

definition py_split :: "string \<Rightarrow> char \<Rightarrow> string list" where
  "py_split s sep = split_from sep [] s"

text \<open>
  What \<open>f.read()\<close> gives for the characters stored in a file opened in text mode with
  the default \<open>newline=None\<close>: a carriage return followed by a line feed, and a
  carriage return alone, are both read as one line feed.  (Writing in that mode turns a
  line feed into \<open>os.linesep\<close>, which is the line feed itself on POSIX; the files of
  the model hold the characters as they are written there.)
\<close>

fun universal_newlines :: "string \<Rightarrow> string" where
  "universal_newlines [] = []"
| "universal_newlines [c] = [if c = cr then nl else c]"
| "universal_newlines (c # d # cs) =
     (if c = cr \<and> d = nl then nl # universal_newlines cs
      else if c = cr then nl # universal_newlines (d # cs)
      else c # universal_newlines (d # cs))"

text \<open>\<open>sep.join(xs)\<close>.\<close>

fun py_join :: "string \<Rightarrow> string list \<Rightarrow> string" where
  "py_join sep [] = []"
| "py_join sep [x] = x"
| "py_join sep (x # y # ys) = x @ sep @ py_join sep (y # ys)"

text \<open>
  \<open>s.replace(old, new)\<close>: the occurrences of \<open>old\<close> are found left to right and do
  not overlap; an empty \<open>old\<close> matches before every character and at the end.
\<close>

function replace_from :: "string \<Rightarrow> string \<Rightarrow> string \<Rightarrow> string" where
  "replace_from old new [] = []"
| "replace_from old new (c # cs) =
     (if old \<noteq> [] \<and> prefix old (c # cs)
      then new @ replace_from old new (drop (length old) (c # cs))
      else c # replace_from old new cs)"
  by pat_completeness auto
termination
  by (relation "measure (\<lambda>(old, new, s). length s)") auto

definition py_replace :: "string \<Rightarrow> string \<Rightarrow> string \<Rightarrow> string" where
  "py_replace s old new =
     (if old = [] then new @ concat (map (\<lambda>c. c # new) s) else replace_from old new s)"

text \<open>\<open>str(n)\<close> for an \<open>int\<close>: decimal digits, a minus sign when negative.\<close>

fun str_nat :: "nat \<Rightarrow> string" where
  "str_nat n =
     (if n < 10 then [''0123456789'' ! n] else str_nat (n div 10) @ [''0123456789'' ! (n mod 10)])"

declare str_nat.simps [simp del]

definition str_int :: "int \<Rightarrow> string" where
  "str_int i = (if i < 0 then CHR ''-'' # str_nat (nat (- i)) else str_nat (nat i))"

section \<open>Values fetched from the engine\<close>

text \<open>
  A fetched value by its Python class: \<open>None\<close>; an \<open>int\<close>; a \<open>float\<close> (carried as
  the text \<open>str\<close> gives for it; floating-point formatting is not modelled); a
  \<open>decimal.Decimal\<close>, which is what the connector returns for a \<open>DECIMAL\<close> column;
  or an object of any other class (\<open>str\<close>, \<open>datetime\<close>, \<open>bytes\<close>, ...).  The last
  two are carried as the text \<open>str\<close> gives for them.
\<close>

datatype py_value = PyNone | PyInt int | PyFloat string | PyDecimal string | PyOther string

fun py_str :: "py_value \<Rightarrow> string" where
  "py_str PyNone = ''None''"
| "py_str (PyInt i) = str_int i"
| "py_str (PyFloat r) = r"
| "py_str (PyDecimal s) = s"
| "py_str (PyOther s) = s"

text \<open>The values that are numbers: of an integer, a floating-point or a decimal type.\<close>

fun is_numeric :: "py_value \<Rightarrow> bool" where
  "is_numeric (PyInt i) = True"
| "is_numeric (PyFloat r) = True"
| "is_numeric (PyDecimal s) = True"
| "is_numeric v = False"

text \<open>The number a string of decimal digits denotes.\<close>

definition digit_value :: "char \<Rightarrow> nat" where
  "digit_value c = length (takeWhile (\<lambda>d. d \<noteq> c) ''0123456789'')"

definition nat_of_digits :: "string \<Rightarrow> nat" where
  "nat_of_digits s = foldl (\<lambda>n c. 10 * n + digit_value c) 0 s"

text \<open>
  Lines 129--134 of export\_dump: the literal appended to \<open>values\<close> for one value.
  Line 131 tests \<open>isinstance(value, (int, float))\<close>; a \<open>Decimal\<close> is neither.
\<close>

fun serialize_value :: "py_value \<Rightarrow> string" where
  "serialize_value PyNone = ''NULL''"
| "serialize_value (PyInt i) = py_str (PyInt i)"
| "serialize_value (PyFloat r) = py_str (PyFloat r)"
| "serialize_value (PyDecimal s) =
     [quote] @ py_replace (py_str (PyDecimal s)) [quote] [quote, quote] @ [quote]"
| "serialize_value (PyOther s) =
     [quote] @ py_replace (py_str (PyOther s)) [quote] [quote, quote] @ [quote]"

section \<open>The world outside the script\<close>

text \<open>
  Exceptions as the handlers of the script tell them apart: \<open>mariadb.Error\<close> (caught
  by the inner handlers) and any other subclass of \<open>Exception\<close>.  Both carry the text
  \<open>str(e)\<close>.
\<close>

datatype exn = MariadbError string | PyException string

fun str_exn :: "exn \<Rightarrow> string" where
  "str_exn (MariadbError m) = m"
| "str_exn (PyException m) = m"

type_synonym path = string

text \<open>What a cursor holds after \<open>execute\<close>: the column names and the rows.\<close>

record result_set =
  description :: "string list"
  fetched :: "py_value list list"

text \<open>
  The relational engine is an opaque service: a state of type \<open>'db\<close> and the four calls
  the script makes through the connector.  A call that fails raises \<open>mariadb.Error\<close> with
  the given message; so may the call that closes the handle.
\<close>

record 'db env =
  srv_connect :: "'db \<Rightarrow> string option \<times> 'db"
  srv_execute :: "string \<Rightarrow> 'db \<Rightarrow> (string + result_set) \<times> 'db"
  srv_commit :: "'db \<Rightarrow> string option \<times> 'db"
  srv_close :: "'db \<Rightarrow> string option \<times> 'db"

text \<open>
  Every call that leaves the process is recorded, in order; the calls whose failure the
  script handles are recorded with the error they raised.
\<close>

datatype event =
    EvConnect "string option"
  | EvExecute string "string option"
  | EvCommit "string option"
  | EvClose
  | EvSleep nat
  | EvPrint string

text \<open>
  The state the script runs in: the engine; the characters of the text files, by path;
  the paths \<open>os.remove\<close> is refused on; the paths that cannot be opened for writing;
  the contents the device refuses to hold for a path (a full disk); the clock's text
  \<open>str(datetime.now())\<close>; and the record of calls made so far.
\<close>

record 'db world =
  engine :: 'db
  files :: "path \<rightharpoonup> string"
  undeletable :: "path set"
  unwritable :: "path set"
  unstorable :: "path \<Rightarrow> string \<Rightarrow> bool"
  now :: string
  trace :: "event list"

definition log :: "event \<Rightarrow> 'db world \<Rightarrow> 'db world" where
  "log e w = w\<lparr>trace := trace w @ [e]\<rparr>"

definition error_of :: "(string + 'a) \<Rightarrow> string option" where
  "error_of r = (case r of Inl m \<Rightarrow> Some m | Inr _ \<Rightarrow> None)"

definition mariadb_connect :: "'db env \<Rightarrow> 'db world \<Rightarrow> string option \<times> 'db world" where
  "mariadb_connect env w =
     (case srv_connect env (engine w) of (r, d) \<Rightarrow> (r, log (EvConnect r) (w\<lparr>engine := d\<rparr>)))"

definition cur_execute :: "'db env \<Rightarrow> string \<Rightarrow> 'db world \<Rightarrow> (string + result_set) \<times> 'db world" where
  "cur_execute env stmt w =
     (case srv_execute env stmt (engine w) of
        (r, d) \<Rightarrow> (r, log (EvExecute stmt (error_of r)) (w\<lparr>engine := d\<rparr>)))"

definition conn_commit :: "'db env \<Rightarrow> 'db world \<Rightarrow> string option \<times> 'db world" where
  "conn_commit env w =
     (case srv_commit env (engine w) of (r, d) \<Rightarrow> (r, log (EvCommit r) (w\<lparr>engine := d\<rparr>)))"

definition conn_close :: "'db env \<Rightarrow> 'db world \<Rightarrow> string option \<times> 'db world" where
  "conn_close env w =
     (case srv_close env (engine w) of (r, d) \<Rightarrow> (r, log EvClose (w\<lparr>engine := d\<rparr>)))"

definition time_sleep :: "nat \<Rightarrow> 'db world \<Rightarrow> 'db world" where
  "time_sleep secs w = log (EvSleep secs) w"

definition py_print :: "string \<Rightarrow> 'db world \<Rightarrow> 'db world" where
  "py_print s w = log (EvPrint s) w"

section \<open>get\_db\_connection\<close>

definition MAX_RETRIES :: nat where "MAX_RETRIES = 3"
definition RETRY_DELAY :: nat where "RETRY_DELAY = 2"

definition attempt_failed_message :: "nat \<Rightarrow> string \<Rightarrow> string" where
  "attempt_failed_message attempts e =
     ''Connection attempt '' @ str_int (int attempts + 1) @ '' failed: '' @ e"

definition connect_failure :: exn where
  "connect_failure = PyException ''Failed to connect to database after multiple attempts''"

text \<open>The \<open>while attempts < MAX_RETRIES\<close> loop, entered with the given counter.\<close>

function connect_loop :: "'db env \<Rightarrow> nat \<Rightarrow> 'db world \<Rightarrow> (exn + unit) \<times> 'db world" where
  "connect_loop env attempts w =
     (if attempts < MAX_RETRIES then
        (case mariadb_connect env w of
           (None, w1) \<Rightarrow> (Inr (), w1)
         | (Some e, w1) \<Rightarrow>
             connect_loop env (attempts + 1)
               (time_sleep RETRY_DELAY (py_print (attempt_failed_message attempts e) w1)))
      else (Inl connect_failure, w))"
  by pat_completeness auto
termination
  by (relation "measure (\<lambda>(env, attempts, w). MAX_RETRIES - attempts)") auto

declare connect_loop.simps [simp del]

definition get_db_connection :: "'db env \<Rightarrow> 'db world \<Rightarrow> (exn + unit) \<times> 'db world" where
  "get_db_connection env w = connect_loop env 0 w"

section \<open>import\_dump\<close>

text \<open>Lines 57--59: \<open>if new_db_name:\<close> is false for \<open>None\<close> and for the empty string.\<close>

definition create_database :: "'db env \<Rightarrow> string option \<Rightarrow> 'db world \<Rightarrow> exn option \<times> 'db world" where
  "create_database env new_db_name w =
     (case new_db_name of
        None \<Rightarrow> (None, w)
      | Some name \<Rightarrow>
          if name = [] then (None, w)
          else (case cur_execute env (''CREATE DATABASE IF NOT EXISTS '' @ name) w of
                  (Inl e, w1) \<Rightarrow> (Some (MariadbError e), w1)
                | (Inr _, w1) \<Rightarrow>
                    (case cur_execute env (''USE '' @ name) w1 of
                       (Inl e, w2) \<Rightarrow> (Some (MariadbError e), w2)
                     | (Inr _, w2) \<Rightarrow> (None, w2))))"

definition warning_message :: "string \<Rightarrow> string" where
  "warning_message e = ''Warning: '' @ e @ '' - Continuing with next command''"

text \<open>Lines 65--70: the loop over the pieces of the dump.\<close>

fun import_commands :: "'db env \<Rightarrow> string list \<Rightarrow> 'db world \<Rightarrow> 'db world" where
  "import_commands env [] w = w"
| "import_commands env (command # rest) w =
     (if py_strip command \<noteq> [] then
        (case cur_execute env command w of
           (Inr _, w1) \<Rightarrow> import_commands env rest w1
         | (Inl e, w1) \<Rightarrow> import_commands env rest (py_print (warning_message e) w1))
      else import_commands env rest w)"

definition no_such_file :: "path \<Rightarrow> exn" where
  "no_such_file p = PyException (''[Errno 2] No such file or directory: '' @ [quote] @ p @ [quote])"

text \<open>
  Lines 54--73, after the connection is there: what the \<open>try\<close> block does.  The text
  the loop works on is what \<open>f.read()\<close> gives for the characters of the file.
\<close>

definition import_body :: "'db env \<Rightarrow> path \<Rightarrow> string option \<Rightarrow> 'db world \<Rightarrow> (exn + unit) \<times> 'db world" where
  "import_body env dump_file_path new_db_name w =
     (case create_database env new_db_name w of
        (Some e, w1) \<Rightarrow> (Inl e, w1)
      | (None, w1) \<Rightarrow>
          (case files w1 dump_file_path of
             None \<Rightarrow> (Inl (no_such_file dump_file_path), w1)
           | Some contents \<Rightarrow>
               (case conn_commit env
                       (import_commands env (py_split (universal_newlines contents) semi) w1) of
                  (Some e, w3) \<Rightarrow> (Inl (MariadbError e), w3)
                | (None, w3) \<Rightarrow> (Inr (), w3))))"

text \<open>
  The whole function.  \<open>except Exception\<close> turns what the block raised into a result;
  \<open>finally\<close> then closes the handle when \<open>conn\<close> was bound, outside every handler:
  an exception of \<open>conn.close()\<close> leaves the function in place of the result
  (\<open>Inl\<close>).
\<close>

definition import_dump :: "'db env \<Rightarrow> path \<Rightarrow> string option \<Rightarrow> 'db world \<Rightarrow> (exn + bool \<times> string) \<times> 'db world" where
  "import_dump env dump_file_path new_db_name w =
     (case get_db_connection env w of
        (Inl e, w1) \<Rightarrow> (Inr (False, ''Error importing dump: '' @ str_exn e), w1)
      | (Inr _, w1) \<Rightarrow>
          (case import_body env dump_file_path new_db_name w1 of
             (r, w2) \<Rightarrow>
               (case conn_close env w2 of
                  (Some e, w3) \<Rightarrow> (Inl (MariadbError e), w3)
                | (None, w3) \<Rightarrow>
                    (case r of
                       Inl e \<Rightarrow> (Inr (False, ''Error importing dump: '' @ str_exn e), w3)
                     | Inr _ \<Rightarrow> (Inr (True, ''Dump imported successfully''), w3)))))"

section \<open>export\_dump\<close>

text \<open>\<open>DB_CONFIG['database']\<close>.\<close>

definition db_default :: string where
  "db_default = ''flight_reservation''"

text \<open>Lines 96--97: \<open>if db_name:\<close> is false for \<open>None\<close> and for the empty string.\<close>

definition use_database :: "'db env \<Rightarrow> string option \<Rightarrow> 'db world \<Rightarrow> exn option \<times> 'db world" where
  "use_database env db_name w =
     (case db_name of
        None \<Rightarrow> (None, w)
      | Some name \<Rightarrow>
          if name = [] then (None, w)
          else (case cur_execute env (''USE '' @ name) w of
                  (Inl e, w1) \<Rightarrow> (Some (MariadbError e), w1)
                | (Inr _, w1) \<Rightarrow> (None, w1)))"

text \<open>\<open>db_name or DB_CONFIG['database']\<close>.\<close>

definition db_label :: "string option \<Rightarrow> string" where
  "db_label db_name =
     (case db_name of None \<Rightarrow> db_default | Some name \<Rightarrow> if name = [] then db_default else name)"

text \<open>
  Line 101, \<open>[table[0] for table in cur.fetchall()]\<close>: an empty row raises
  \<open>IndexError\<close>.
\<close>

fun first_columns :: "py_value list list \<Rightarrow> exn + py_value list" where
  "first_columns [] = Inr []"
| "first_columns (row # rows) =
     (case row of
        [] \<Rightarrow> Inl (PyException ''tuple index out of range'')
      | v # _ \<Rightarrow> (case first_columns rows of Inl e \<Rightarrow> Inl e | Inr vs \<Rightarrow> Inr (v # vs)))"

text \<open>
  Line 114, \<open>cur.fetchone()[1]\<close>: \<open>fetchone\<close> gives \<open>None\<close> when there is no row
  (\<open>TypeError\<close>), and a row of fewer than two columns raises \<open>IndexError\<close>.
\<close>

definition fetchone_second :: "result_set \<Rightarrow> exn + py_value" where
  "fetchone_second rs =
     (case fetched rs of
        [] \<Rightarrow> Inl (PyException ([quote] @ ''NoneType'' @ [quote] @ '' object is not subscriptable''))
      | row # _ \<Rightarrow>
          if 1 < length row then Inr (row ! 1)
          else Inl (PyException ''tuple index out of range''))"

text \<open>The texts of the \<open>f.write\<close> calls, in the order of the source.\<close>

definition bq :: "string \<Rightarrow> string" where
  "bq s = ''`'' @ s @ ''`''"

definition header_text :: "string \<Rightarrow> string \<Rightarrow> string" where
  "header_text t label =
     ''-- Database dump generated on '' @ t @ [nl] @ ''-- Database: '' @ label @ [nl, nl]"

text \<open>Lines 105 and 106 write it in two calls.\<close>

definition header_lines :: "string \<Rightarrow> string \<Rightarrow> string list" where
  "header_lines t label =
     [''-- Database dump generated on '' @ t @ [nl], ''-- Database: '' @ label @ [nl, nl]]"

definition structure_comment :: "string \<Rightarrow> string" where
  "structure_comment table = [nl] @ ''-- Table structure for table '' @ bq table @ [nl]"

definition drop_line :: "string \<Rightarrow> string" where
  "drop_line table = ''DROP TABLE IF EXISTS '' @ bq table @ '';'' @ [nl]"

definition create_text :: "string \<Rightarrow> string" where
  "create_text create_table = create_table @ '';'' @ [nl, nl]"

definition data_comment :: "string \<Rightarrow> string" where
  "data_comment table = ''-- Dumping data for table '' @ bq table @ [nl]"

definition insert_head :: "string \<Rightarrow> string list \<Rightarrow> string" where
  "insert_head table columns =
     ''INSERT INTO '' @ bq table @ '' ('' @ bq (py_join ''`,`'' columns) @ '') VALUES'' @ [nl]"

definition row_text :: "py_value list \<Rightarrow> string" where
  "row_text row = ''('' @ py_join '','' (map serialize_value row) @ '')''"

text \<open>
  \<open>open(output_file_path, 'w')\<close> raises \<open>PermissionError\<close> on a path that cannot be
  opened for writing.  On the open file, consecutive \<open>f.write\<close> calls add their texts
  to what is written; a call the device refuses raises \<open>OSError\<close> and leaves what was
  written before it.
\<close>

definition permission_denied :: "path \<Rightarrow> exn" where
  "permission_denied p = PyException (''[Errno 13] Permission denied: '' @ [quote] @ p @ [quote])"

definition disk_full :: exn where
  "disk_full = PyException ''[Errno 28] No space left on device''"

fun f_writes :: "'db world \<Rightarrow> path \<Rightarrow> string \<Rightarrow> string list \<Rightarrow> exn option \<times> string" where
  "f_writes w p buf [] = (None, buf)"
| "f_writes w p buf (s # rest) =
     (if unstorable w p (buf @ s) then (Some disk_full, buf) else f_writes w p (buf @ s) rest)"

text \<open>
  Lines 126--137: the loop over \<open>enumerate(rows)\<close>, with \<open>n = len(rows)\<close>, the index
  \<open>i\<close> and the text written so far; lines 136 and 137 are the two writes of a row.
\<close>

fun write_rows :: "'db world \<Rightarrow> path \<Rightarrow> nat \<Rightarrow> nat \<Rightarrow> py_value list list \<Rightarrow> string \<Rightarrow> exn option \<times> string" where
  "write_rows w p n i [] buf = (None, buf)"
| "write_rows w p n i (row # rest) buf =
     (case f_writes w p buf
             [row_text row, if int i = int n - 1 then '';'' @ [nl] else '','' @ [nl]] of
        (Some e, buf1) \<Rightarrow> (Some e, buf1)
      | (None, buf1) \<Rightarrow> write_rows w p n (i + 1) rest buf1)"

text \<open>Lines 122--137: \<open>if rows:\<close>.\<close>

definition write_data :: "'db world \<Rightarrow> path \<Rightarrow> string \<Rightarrow> result_set \<Rightarrow> string \<Rightarrow> exn option \<times> string" where
  "write_data w p table rs buf =
     (if fetched rs \<noteq> [] then
        (case f_writes w p buf [insert_head table (description rs)] of
           (Some e, buf1) \<Rightarrow> (Some e, buf1)
         | (None, buf1) \<Rightarrow> write_rows w p (length (fetched rs)) 0 (fetched rs) buf1)
      else (None, buf))"

text \<open>
  Lines 110--137, one pass of the loop over \<open>tables\<close>; \<open>buf\<close> is what has been written
  to the file so far, and stays written when a query or a write raises.
\<close>

definition export_table :: "'db env \<Rightarrow> path \<Rightarrow> py_value \<Rightarrow> string \<Rightarrow> 'db world \<Rightarrow> (exn option \<times> string) \<times> 'db world" where
  "export_table env p table buf w =
     (case f_writes w p buf [structure_comment (py_str table), drop_line (py_str table)] of
        (Some e, buf1) \<Rightarrow> ((Some e, buf1), w)
      | (None, buf1) \<Rightarrow>
          (case cur_execute env (''SHOW CREATE TABLE '' @ bq (py_str table)) w of
             (Inl e, w1) \<Rightarrow> ((Some (MariadbError e), buf1), w1)
           | (Inr rs, w1) \<Rightarrow>
               (case fetchone_second rs of
                  Inl e \<Rightarrow> ((Some e, buf1), w1)
                | Inr create_table \<Rightarrow>
                    (case f_writes w1 p buf1
                            [create_text (py_str create_table), data_comment (py_str table)] of
                       (Some e, buf2) \<Rightarrow> ((Some e, buf2), w1)
                     | (None, buf2) \<Rightarrow>
                         (case cur_execute env (''SELECT * FROM '' @ bq (py_str table)) w1 of
                            (Inl e, w2) \<Rightarrow> ((Some (MariadbError e), buf2), w2)
                          | (Inr rows, w2) \<Rightarrow>
                              (write_data w2 p (py_str table) rows buf2, w2))))))"

fun export_tables :: "'db env \<Rightarrow> path \<Rightarrow> py_value list \<Rightarrow> string \<Rightarrow> 'db world \<Rightarrow> (exn option \<times> string) \<times> 'db world" where
  "export_tables env p [] buf w = ((None, buf), w)"
| "export_tables env p (table # rest) buf w =
     (case export_table env p table buf w of
        ((Some e, buf1), w1) \<Rightarrow> ((Some e, buf1), w1)
      | ((None, buf1), w1) \<Rightarrow> export_tables env p rest buf1 w1)"

text \<open>
  Lines 94--139, after the connection is there.  The file is opened once the table list
  is known, and holds what was written when the block is left, also by an exception.
\<close>

definition export_body :: "'db env \<Rightarrow> path \<Rightarrow> string option \<Rightarrow> 'db world \<Rightarrow> (exn + unit) \<times> 'db world" where
  "export_body env output_file_path db_name w =
     (case use_database env db_name w of
        (Some e, w1) \<Rightarrow> (Inl e, w1)
      | (None, w1) \<Rightarrow>
          (case cur_execute env ''SHOW TABLES'' w1 of
             (Inl e, w2) \<Rightarrow> (Inl (MariadbError e), w2)
           | (Inr rs, w2) \<Rightarrow>
               (case first_columns (fetched rs) of
                  Inl e \<Rightarrow> (Inl e, w2)
                | Inr tables \<Rightarrow>
                    if output_file_path \<in> unwritable w2
                    then (Inl (permission_denied output_file_path), w2)
                    else
                      (case f_writes w2 output_file_path []
                              (header_lines (now w2) (db_label db_name)) of
                         (Some e, buf) \<Rightarrow>
                           (Inl e, w2\<lparr>files := (files w2)(output_file_path \<mapsto> buf)\<rparr>)
                       | (None, buf) \<Rightarrow>
                           (case export_tables env output_file_path tables buf w2 of
                              ((r, buf1), w3) \<Rightarrow>
                                ((case r of Some e \<Rightarrow> Inl e | None \<Rightarrow> Inr ()),
                                 w3\<lparr>files := (files w3)(output_file_path \<mapsto> buf1)\<rparr>))))))"

text \<open>The whole function, with the handler and the \<open>finally\<close> clause of import\_dump.\<close>

definition export_dump :: "'db env \<Rightarrow> path \<Rightarrow> string option \<Rightarrow> 'db world \<Rightarrow> (exn + bool \<times> string) \<times> 'db world" where
  "export_dump env output_file_path db_name w =
     (case get_db_connection env w of
        (Inl e, w1) \<Rightarrow> (Inr (False, ''Error exporting dump: '' @ str_exn e), w1)
      | (Inr _, w1) \<Rightarrow>
          (case export_body env output_file_path db_name w1 of
             (r, w2) \<Rightarrow>
               (case conn_close env w2 of
                  (Some e, w3) \<Rightarrow> (Inl (MariadbError e), w3)
                | (None, w3) \<Rightarrow>
                    (case r of
                       Inl e \<Rightarrow> (Inr (False, ''Error exporting dump: '' @ str_exn e), w3)
                     | Inr _ \<Rightarrow> (Inr (True, ''Dump exported successfully''), w3)))))"

section \<open>compress\_file and decompress\_file\<close>





section \<open>threaded\_import\<close>

text \<open>Line 282: \<open>[dump_file_path] * num_chunks\<close>; a negative count gives the empty list.\<close>

definition split_dump_file :: "path \<Rightarrow> int \<Rightarrow> path list" where
  "split_dump_file dump_file_path num_chunks = replicate (nat num_chunks) dump_file_path"

text \<open>One entry of \<open>results\<close> (the elapsed wall-clock time is left out).\<close>

record import_record =
  rec_db_name :: string
  rec_success :: bool
  rec_message :: string

text \<open>
  Lines 284--303.  An exception that leaves import\_dump is caught at line 297 and
  recorded as a failure with its text.
\<close>

definition import_chunk :: "'db env \<Rightarrow> path \<Rightarrow> string \<Rightarrow> import_record list \<Rightarrow> 'db world \<Rightarrow> import_record list \<times> 'db world" where
  "import_chunk env chunk_file db_name results w =
     (case import_dump env chunk_file (Some db_name) w of
        (Inr (success, message), w1) \<Rightarrow>
          (results @ [\<lparr>rec_db_name = db_name, rec_success = success, rec_message = message\<rparr>], w1)
      | (Inl e, w1) \<Rightarrow>
          (results @ [\<lparr>rec_db_name = db_name, rec_success = False, rec_message = str_exn e\<rparr>], w1))"

text \<open>Line 258: \<open>f"{db_name_prefix}_thread_{i}"\<close>.\<close>

definition thread_db_name :: "string \<Rightarrow> nat \<Rightarrow> string" where
  "thread_db_name db_name_prefix i = db_name_prefix @ ''_thread_'' @ str_int (int i)"

text \<open>
  Lines 257--267: the workers, each with the arguments line 261 gives it.  Here each
  worker runs to its end before the next one starts, which is one of the schedules the
  threads can take.
\<close>

fun run_workers :: "'db env \<Rightarrow> string \<Rightarrow> nat \<Rightarrow> path list \<Rightarrow> import_record list \<Rightarrow> 'db world \<Rightarrow> import_record list \<times> 'db world" where
  "run_workers env db_name_prefix i [] results w = (results, w)"
| "run_workers env db_name_prefix i (chunk_file # rest) results w =
     (case import_chunk env chunk_file (thread_db_name db_name_prefix i) results w of
        (results1, w1) \<Rightarrow> run_workers env db_name_prefix (i + 1) rest results1 w1)"

text \<open>
  \<open>os.remove\<close>: raises when there is no such file (\<open>FileNotFoundError\<close>) or when the
  removal is refused (\<open>PermissionError\<close>).
\<close>

definition os_remove :: "path \<Rightarrow> 'db world \<Rightarrow> exn option \<times> 'db world" where
  "os_remove p w =
     (if files w p = None then (Some (no_such_file p), w)
      else if p \<in> undeletable w then (Some (permission_denied p), w)
      else (None, w\<lparr>files := (files w)(p := None)\<rparr>))"

text \<open>Lines 270--274: every exception of \<open>os.remove\<close> is passed over.\<close>

fun cleanup_chunks :: "path list \<Rightarrow> 'db world \<Rightarrow> 'db world" where
  "cleanup_chunks [] w = w"
| "cleanup_chunks (chunk_file # rest) w =
     (case os_remove chunk_file w of (_, w1) \<Rightarrow> cleanup_chunks rest w1)"

definition threaded_import :: "'db env \<Rightarrow> path \<Rightarrow> string \<Rightarrow> int \<Rightarrow> 'db world \<Rightarrow> import_record list \<times> 'db world" where
  "threaded_import env dump_file_path db_name_prefix num_threads w =
     (case run_workers env db_name_prefix 0 (split_dump_file dump_file_path num_threads) [] w of
        (results, w1) \<Rightarrow> (results, cleanup_chunks (split_dump_file dump_file_path num_threads) w1))"

section \<open>Reading the record of calls\<close>

text \<open>The statements handed to \<open>cur.execute\<close>, in the order of the calls.\<close>

fun executed :: "event list \<Rightarrow> string list" where
  "executed [] = []"
| "executed (EvExecute stmt r # evs) = stmt # executed evs"
| "executed (ev # evs) = executed evs"

text \<open>
  The calls of \<open>k\<close> failed connection attempts in a row, the first of them made with the
  counter at \<open>attempts\<close>: the attempt, the printed line, the pause.
\<close>

fun failed_attempts :: "nat \<Rightarrow> string list \<Rightarrow> event list" where
  "failed_attempts attempts [] = []"
| "failed_attempts attempts (e # es) =
     [EvConnect (Some e), EvPrint (attempt_failed_message attempts e), EvSleep RETRY_DELAY]
       @ failed_attempts (attempts + 1) es"

text \<open>
  What the engine answers when the non-blank pieces are executed one after the other,
  each on the state the previous one left: the piece and the error it raised, if any.
\<close>

fun statement_results :: "'db env \<Rightarrow> string list \<Rightarrow> 'db \<Rightarrow> (string \<times> string option) list" where
  "statement_results env [] d = []"
| "statement_results env (command # rest) d =
     (if py_strip command \<noteq> [] then
        (case srv_execute env command d of
           (r, d1) \<Rightarrow> (command, error_of r) # statement_results env rest d1)
      else statement_results env rest d)"

text \<open>The calls one executed piece leaves: the failure is printed, nothing else happens.\<close>

fun statement_events :: "string \<times> string option \<Rightarrow> event list" where
  "statement_events (stmt, None) = [EvExecute stmt None]"
| "statement_events (stmt, Some e) = [EvExecute stmt (Some e), EvPrint (warning_message e)]"

text \<open>
  The second world has the files, the refusals of the device and the clock of the first:
  what a call to the engine, a pause or a printed line leaves as it was.
\<close>

definition same_outside :: "'db world \<Rightarrow> 'db world \<Rightarrow> bool" where
  "same_outside w w1 =
     (files w1 = files w \<and> undeletable w1 = undeletable w \<and> unwritable w1 = unwritable w
      \<and> unstorable w1 = unstorable w \<and> now w1 = now w)"

text \<open>The two statements of lines 58--59, when a database name is given.\<close>

definition preamble :: "string option \<Rightarrow> string list" where
  "preamble new_db_name =
     (case new_db_name of
        None \<Rightarrow> []
      | Some name \<Rightarrow>
          if name = [] then [] else [''CREATE DATABASE IF NOT EXISTS '' @ name, ''USE '' @ name])"

section \<open>Scripted engines for the worked examples\<close>

text \<open>
  A stand-in engine whose state is the list of statements that took effect.  It refuses
  the connection or the commit with a given error, and rejects the statements a
  predicate picks.
\<close>

definition blank_result :: result_set where
  "blank_result = \<lparr>description = [], fetched = []\<rparr>"

definition scripted :: "string option \<Rightarrow> (string \<Rightarrow> bool) \<Rightarrow> string option \<Rightarrow> string list env" where
  "scripted connect_error rejects commit_error =
     \<lparr>srv_connect = (\<lambda>d. (connect_error, d)),
      srv_execute = (\<lambda>stmt d.
         if rejects stmt then (Inl ''You have an error in your SQL syntax'', d)
         else (Inr blank_result, d @ [stmt])),
      srv_commit = (\<lambda>d. (commit_error, d)),
      srv_close = (\<lambda>d. (None, d))\<rparr>"


definition start :: "'db \<Rightarrow> (path \<times> string) list \<Rightarrow> 'db world" where
  "start d fs =
     \<lparr>engine = d, files = map_of fs, undeletable = {}, unwritable = {},
      unstorable = (\<lambda>p contents. False), now = ''2024-05-01 10:00:00.000000'', trace = []\<rparr>"

section \<open>The dump as the specification describes it\<close>

text \<open>
  A TableSnapshot: the name of a table, the create statement the engine reports for it,
  its column names and its rows.
\<close>

record table_snapshot =
  snap_table :: string
  snap_create :: string
  snap_columns :: "string list"
  snap_rows :: "py_value list list"

text \<open>
  What the engine answers to the two queries export\_dump makes for one table
  (\<open>SHOW CREATE TABLE\<close>, then \<open>SELECT *\<close>), and for the tables of a list, asked in the
  order of the list, each on the state the previous answers left.
\<close>

definition snapshot_of :: "'db env \<Rightarrow> py_value \<Rightarrow> 'db world \<Rightarrow> table_snapshot option \<times> 'db world" where
  "snapshot_of env table w =
     (case cur_execute env (''SHOW CREATE TABLE '' @ bq (py_str table)) w of
        (Inl e, w1) \<Rightarrow> (None, w1)
      | (Inr rs, w1) \<Rightarrow>
          (case fetchone_second rs of
             Inl e \<Rightarrow> (None, w1)
           | Inr create_table \<Rightarrow>
               (case cur_execute env (''SELECT * FROM '' @ bq (py_str table)) w1 of
                  (Inl e, w2) \<Rightarrow> (None, w2)
                | (Inr rows, w2) \<Rightarrow>
                    (Some \<lparr>snap_table = py_str table, snap_create = py_str create_table,
                           snap_columns = description rows, snap_rows = fetched rows\<rparr>, w2))))"

fun table_snapshots :: "'db env \<Rightarrow> py_value list \<Rightarrow> 'db world \<Rightarrow> table_snapshot list option \<times> 'db world" where
  "table_snapshots env [] w = (Some [], w)"
| "table_snapshots env (table # rest) w =
     (case snapshot_of env table w of
        (None, w1) \<Rightarrow> (None, w1)
      | (Some s, w1) \<Rightarrow>
          (case table_snapshots env rest w1 of
             (None, w2) \<Rightarrow> (None, w2)
           | (Some ss, w2) \<Rightarrow> (Some (s # ss), w2)))"

text \<open>
  The three statements of a table in the words of the specification: a
  \<open>DROP TABLE IF EXISTS\<close>, the reported create statement, and one \<open>INSERT\<close> that lists
  every row, the rows separated by a comma and a line break; no \<open>INSERT\<close> for a table
  without rows.
\<close>

definition spec_drop :: "table_snapshot \<Rightarrow> string" where
  "spec_drop s = ''DROP TABLE IF EXISTS '' @ bq (snap_table s)"

definition spec_insert :: "table_snapshot \<Rightarrow> string" where
  "spec_insert s =
     ''INSERT INTO '' @ bq (snap_table s) @ '' ('' @ bq (py_join ''`,`'' (snap_columns s))
       @ '') VALUES'' @ [nl] @ py_join ('','' @ [nl]) (map row_text (snap_rows s))"


text \<open>
  The part of the file that belongs to one table: the statements, each closed by
  \<open>;\<close>, between the two comment lines.
\<close>

definition spec_section :: "table_snapshot \<Rightarrow> string" where
  "spec_section s =
     [nl] @ ''-- Table structure for table '' @ bq (snap_table s) @ [nl]
       @ spec_drop s @ '';'' @ [nl]
       @ snap_create s @ '';'' @ [nl, nl]
       @ ''-- Dumping data for table '' @ bq (snap_table s) @ [nl]
       @ (if snap_rows s = [] then [] else spec_insert s @ '';'' @ [nl])"







text \<open>
  A stand-in engine that knows one table \<open>t\<close> with one text column \<open>c\<close>.  Its state is
  the rows of \<open>t\<close>, or \<open>None\<close> when there is no such table.  It answers the three
  queries of export\_dump, and accepts a statement that ends with the \<open>DROP\<close>, with the
  create statement, or with the \<open>INSERT\<close> of one row holding the value \<open>v\<close> (what
  comes before in the piece is comment); every other text is a syntax error.
\<close>

definition syntax_error :: string where
  "syntax_error = ''You have an error in your SQL syntax''"

definition one_table :: "string \<Rightarrow> py_value list list option env" where
  "one_table v =
     \<lparr>srv_connect = (\<lambda>d. (None, d)),
      srv_execute = (\<lambda>stmt d.
         if stmt = ''SHOW TABLES'' then
           (Inr \<lparr>description = [''Tables_in_flight_reservation''],
                 fetched = (case d of None \<Rightarrow> [] | Some rows \<Rightarrow> [[PyOther ''t'']])\<rparr>, d)
         else if stmt = ''SHOW CREATE TABLE `t`'' then
           (case d of
              None \<Rightarrow> (Inl ''Table t does not exist'', d)
            | Some rows \<Rightarrow>
                (Inr \<lparr>description = [''Table'', ''Create Table''],
                      fetched = [[PyOther ''t'', PyOther ''CREATE TABLE `t` (`c` text)'']]\<rparr>, d))
         else if stmt = ''SELECT * FROM `t`'' then
           (case d of
              None \<Rightarrow> (Inl ''Table t does not exist'', d)
            | Some rows \<Rightarrow> (Inr \<lparr>description = [''c''], fetched = rows\<rparr>, d))
         else if suffix ''DROP TABLE IF EXISTS `t`'' stmt then (Inr blank_result, None)
         else if suffix ''CREATE TABLE `t` (`c` text)'' stmt then
           (case d of
              None \<Rightarrow> (Inr blank_result, Some [])
            | Some rows \<Rightarrow> (Inl ''Table t already exists'', d))
         else if suffix (''INSERT INTO `t` (`c`) VALUES'' @ [nl] @ ''(''
                          @ serialize_value (PyOther v) @ '')'') stmt then
           (case d of
              None \<Rightarrow> (Inl ''Table t does not exist'', d)
            | Some rows \<Rightarrow> (Inr blank_result, Some (rows @ [[PyOther v]])))
         else (Inl syntax_error, d)),
      srv_commit = (\<lambda>d. (None, d)),
      srv_close = (\<lambda>d. (None, d))\<rparr>"


section \<open>Facts about the text primitives\<close>

lemma replace_quote:
  "replace_from [quote] [quote, quote] s =
     concat (map (\<lambda>c. if c = quote then [quote, quote] else [c]) s)"
  by (induction s) auto

lemma digit_char: "n < 10 \<Longrightarrow> ''0123456789'' ! n \<in> set ''0123456789''" for n :: nat
  by (rule nth_mem) simp

lemma str_nat_digits: "str_nat n \<noteq> [] \<and> set (str_nat n) \<subseteq> set ''0123456789''"
proof (induction n rule: str_nat.induct)
  case (1 n)
  show ?case
  proof (cases "n < 10")
    case True
    then show ?thesis using digit_char[of n] by (subst (1 2) str_nat.simps) simp
  next
    case False
    have "n mod 10 < 10" by simp
    from digit_char[OF this] "1.IH"[OF False] False show ?thesis
      by (subst (1 2) str_nat.simps) simp
  qed
qed





lemma split_from_nonempty: "split_from sep cur s \<noteq> []"
  by (induction s arbitrary: cur) auto

text \<open>Joining the pieces with the separator gives the text back: nothing is lost by \<open>split\<close>.\<close>

lemma split_from_join: "py_join [sep] (split_from sep cur s) = rev cur @ s"
proof (induction s arbitrary: cur)
  case Nil
  then show ?case by simp
next
  case (Cons c s)
  show ?case
  proof (cases "c = sep")
    case True
    obtain x xs where "split_from sep [] s = x # xs"
      using split_from_nonempty[of sep "[]" s] by (cases "split_from sep [] s") auto
    then show ?thesis using Cons[of "[]"] True by simp
  next
    case False
    then show ?thesis using Cons[of "c # cur"] by simp
  qed
qed

lemma py_join_split: "py_join [sep] (py_split s sep) = s"
  by (simp add: py_split_def split_from_join)


lemma digit_value_nth: "k < 10 \<Longrightarrow> digit_value (''0123456789'' ! k) = k" for k :: nat
proof -
  assume "k < 10"
  then consider "k = 0" | "k = 1" | "k = 2" | "k = 3" | "k = 4" | "k = 5" | "k = 6" | "k = 7"
    | "k = 8" | "k = 9"
    by atomize_elim arith
  then show ?thesis by cases (simp_all add: digit_value_def)
qed

lemma nat_of_digits_snoc: "nat_of_digits (s @ [c]) = 10 * nat_of_digits s + digit_value c"
  by (simp add: nat_of_digits_def)

text \<open>Reading the digits of \<open>str(n)\<close> gives \<open>n\<close> back.\<close>

lemma nat_of_digits_str_nat: "nat_of_digits (str_nat n) = n"
proof (induction n rule: str_nat.induct)
  case (1 n)
  show ?case
  proof (cases "n < 10")
    case True
    then show ?thesis
      using digit_value_nth[of n] nat_of_digits_snoc[of "[]" "''0123456789'' ! n"]
      by (subst str_nat.simps) (simp add: nat_of_digits_def)
  next
    case False
    have "n mod 10 < 10" by simp
    from digit_value_nth[OF this] "1.IH"[OF False] False show ?thesis
      by (subst str_nat.simps) (simp add: nat_of_digits_snoc)
  qed
qed

lemma digit_zero: "k < 10 \<Longrightarrow> (''0123456789'' ! k = CHR ''0'') = (k = 0)" for k :: nat
proof -
  assume "k < 10"
  then consider "k = 0" | "k = 1" | "k = 2" | "k = 3" | "k = 4" | "k = 5" | "k = 6" | "k = 7"
    | "k = 8" | "k = 9"
    by atomize_elim arith
  then show ?thesis by cases simp_all
qed

text \<open>No leading zero: the numeral begins with \<open>0\<close> only when it is the numeral of zero.\<close>

lemma str_nat_leading: "(hd (str_nat n) = CHR ''0'') = (n = 0)"
proof (induction n rule: str_nat.induct)
  case (1 n)
  show ?case
  proof (cases "n < 10")
    case True
    then show ?thesis using digit_zero[of n] by (subst str_nat.simps) simp
  next
    case False
    then have "n div 10 \<noteq> 0" by simp
    moreover have "str_nat (n div 10) \<noteq> []" using str_nat_digits by simp
    ultimately show ?thesis using "1.IH"[OF False] False
      by (subst str_nat.simps) simp
  qed
qed

lemma str_nat_zero: "str_nat 0 = ''0''"
  by (subst str_nat.simps) simp

section \<open>Value serialization (C6)\<close>

text \<open>
  C6, as the code has it.  For every value of a row, export\_dump writes: \<open>NULL\<close> for
  \<open>None\<close>; for an \<open>int\<close> the bare decimal numeral of the value (digits that read back
  as its absolute value, without a leading zero unless the value is zero, after a minus
  sign when it is negative); for a \<open>float\<close> its text, bare; and for a value of any other class, a \<open>decimal.Decimal\<close> included, a
  single quote, the text of the value in which each single quote is written twice and
  every other character is copied as it is, and a closing single quote.
\<close>

theorem C6_value_serialization:
  "serialize_value PyNone = ''NULL''
   \<and> serialize_value (PyInt i) = (if i < 0 then ''-'' else []) @ str_nat (nat \<bar>i\<bar>)
   \<and> str_nat (nat \<bar>i\<bar>) \<noteq> [] \<and> set (str_nat (nat \<bar>i\<bar>)) \<subseteq> set ''0123456789''
   \<and> nat_of_digits (str_nat (nat \<bar>i\<bar>)) = nat \<bar>i\<bar>
   \<and> (hd (str_nat (nat \<bar>i\<bar>)) = CHR ''0'') = (i = 0)
   \<and> serialize_value (PyInt 0) = ''0''
   \<and> serialize_value (PyFloat r) = r
   \<and> serialize_value (PyDecimal s) =
        [quote] @ concat (map (\<lambda>c. if c = quote then [quote, quote] else [c]) s) @ [quote]
   \<and> serialize_value (PyOther s) =
        [quote] @ concat (map (\<lambda>c. if c = quote then [quote, quote] else [c]) s) @ [quote]"
  using str_nat_digits[of "nat \<bar>i\<bar>"] nat_of_digits_str_nat[of "nat \<bar>i\<bar>"]
    str_nat_leading[of "nat \<bar>i\<bar>"]
  by (simp add: str_int_def py_replace_def replace_quote str_nat_zero)

text \<open>
  C6 as stated fails where it says that a numeric value is written as a bare numeric
  literal: the value \<open>12.50\<close> of a \<open>DECIMAL\<close> column arrives as a \<open>decimal.Decimal\<close>,
  which line 131 does not count as a number, and is written between quotes.
\<close>

theorem C6_decimal_is_quoted:
  "is_numeric (PyDecimal ''12.50'')
   \<and> serialize_value (PyDecimal ''12.50'') = [quote] @ ''12.50'' @ [quote]
   \<and> serialize_value (PyDecimal ''12.50'') \<noteq> py_str (PyDecimal ''12.50'')"
  by (simp add: py_replace_def)

section \<open>Bounded retry (C7)\<close>

lemma connect_loop_trace:
  "connect_loop env k w = (r, w') \<Longrightarrow> k \<le> MAX_RETRIES \<Longrightarrow>
   \<exists>es. k + length es \<le> MAX_RETRIES
      \<and> trace w' = trace w @ failed_attempts k es
            @ (if k + length es < MAX_RETRIES then [EvConnect None] else [])
      \<and> r = (if k + length es < MAX_RETRIES then Inr () else Inl connect_failure)"
proof (induction env k w arbitrary: r w' rule: connect_loop.induct)
  case (1 env attempts w)
  show ?case
  proof (cases "attempts < MAX_RETRIES")
    case False
    with "1.prems" have "r = Inl connect_failure" "w' = w" "attempts = MAX_RETRIES"
      by (simp_all add: connect_loop.simps)
    then show ?thesis by (intro exI[of _ "[]"]) simp
  next
    case lt: True
    obtain c w1 where mc: "mariadb_connect env w = (c, w1)"
      by (cases "mariadb_connect env w")
    have tr1: "trace w1 = trace w @ [EvConnect c]"
      using mc by (auto simp: mariadb_connect_def log_def split: prod.splits)
    show ?thesis
    proof (cases c)
      case None
      with "1.prems" lt mc have "r = Inr ()" "w' = w1"
        by (simp_all add: connect_loop.simps)
      with tr1 None lt show ?thesis by (intro exI[of _ "[]"]) simp
    next
      case (Some e)
      let ?w2 = "time_sleep RETRY_DELAY (py_print (attempt_failed_message attempts e) w1)"
      have rec: "connect_loop env (attempts + 1) ?w2 = (r, w')"
        using "1.prems" lt mc Some by (simp add: connect_loop.simps)
      have tr2: "trace ?w2 = trace w @ [EvConnect (Some e),
          EvPrint (attempt_failed_message attempts e), EvSleep RETRY_DELAY]"
        using tr1 Some by (simp add: time_sleep_def py_print_def log_def)
      from "1.IH"[OF lt mc[symmetric] Some rec] lt
      obtain es where es: "attempts + 1 + length es \<le> MAX_RETRIES"
        "trace w' = trace ?w2 @ failed_attempts (attempts + 1) es
            @ (if attempts + 1 + length es < MAX_RETRIES then [EvConnect None] else [])"
        "r = (if attempts + 1 + length es < MAX_RETRIES then Inr () else Inl connect_failure)"
        by auto
      show ?thesis
        using es tr2 by (intro exI[of _ "e # es"]) simp
    qed
  qed
qed

text \<open>
  C7, as the code has it.  get\_db\_connection calls \<open>mariadb.connect\<close> at most
  \<open>MAX_RETRIES\<close> times: some number of attempts fail in a row, each followed by its
  printed line and by a pause of \<open>RETRY_DELAY\<close> seconds (always the same pause, also
  after the last failed attempt); the first attempt that succeeds ends the loop and its
  connection is returned; when \<open>MAX_RETRIES\<close> attempts have failed the function raises
  one fixed exception, whose message does not name the cause of any attempt.
\<close>

theorem C7_bounded_retry:
  "\<exists>es. length es \<le> MAX_RETRIES
     \<and> trace (snd (get_db_connection env w)) =
         trace w @ failed_attempts 0 es
           @ (if length es < MAX_RETRIES then [EvConnect None] else [])
     \<and> fst (get_db_connection env w) =
         (if length es < MAX_RETRIES then Inr () else Inl connect_failure)"
  using connect_loop_trace[of env 0 w "fst (get_db_connection env w)"
      "snd (get_db_connection env w)"]
  by (simp add: get_db_connection_def)

text \<open>
  C7 as stated fails where it says the terminal error carries the last underlying
  cause: against an engine that refuses every attempt with ``Access denied'' and against
  one that refuses with ``Unknown host'' the exception raised is the same, and its text
  holds neither cause.  The run also shows the third pause, made after the last attempt.
\<close>

theorem C7_cause_not_carried:
  "fst (get_db_connection (scripted (Some ''Access denied for user root'') (\<lambda>s. False) None)
          (start [] []))
     = Inl (PyException ''Failed to connect to database after multiple attempts'')
   \<and> fst (get_db_connection (scripted (Some ''Unknown MySQL server host'') (\<lambda>s. False) None)
          (start [] []))
     = Inl (PyException ''Failed to connect to database after multiple attempts'')
   \<and> trace (snd (get_db_connection
          (scripted (Some ''Access denied for user root'') (\<lambda>s. False) None) (start [] [])))
     = [EvConnect (Some ''Access denied for user root''),
        EvPrint ''Connection attempt 1 failed: Access denied for user root'', EvSleep 2,
        EvConnect (Some ''Access denied for user root''),
        EvPrint ''Connection attempt 2 failed: Access denied for user root'', EvSleep 2,
        EvConnect (Some ''Access denied for user root''),
        EvPrint ''Connection attempt 3 failed: Access denied for user root'', EvSleep 2]"
  by code_simp

section \<open>What the calls leave unchanged\<close>

lemma log_simps [simp]:
  "trace (log e w) = trace w @ [e]" "files (log e w) = files w" "engine (log e w) = engine w"
  "now (log e w) = now w" "undeletable (log e w) = undeletable w"
  "unwritable (log e w) = unwritable w" "unstorable (log e w) = unstorable w"
  by (simp_all add: log_def)

lemma same_outside_refl [simp]: "same_outside w w"
  by (simp add: same_outside_def)

lemma same_outside_trans: "same_outside w w1 \<Longrightarrow> same_outside w1 w2 \<Longrightarrow> same_outside w w2"
  by (simp add: same_outside_def)

lemma same_outside_log [simp]: "same_outside w (log e w1) = same_outside w w1"
  by (simp add: same_outside_def)

lemma executed_append [simp]: "executed (xs @ ys) = executed xs @ executed ys"
  by (induction xs rule: executed.induct) auto

lemma cur_execute_frame:
  assumes "cur_execute env stmt w = (r, w1)"
  shows "trace w1 = trace w @ [EvExecute stmt (error_of r)]" "same_outside w w1"
    "(r, engine w1) = srv_execute env stmt (engine w)"
  using assms by (auto simp: cur_execute_def same_outside_def split: prod.splits)

lemma cur_execute_frameD:
  "cur_execute env stmt w = (r, w1) \<Longrightarrow>
     trace w1 = trace w @ [EvExecute stmt (error_of r)] \<and> same_outside w w1"
  by (auto simp: cur_execute_def same_outside_def split: prod.splits)

lemma conn_commit_frame:
  "conn_commit env w = (r, w1) \<Longrightarrow>
     trace w1 = trace w @ [EvCommit r] \<and> same_outside w w1
       \<and> (r, engine w1) = srv_commit env (engine w)"
  by (auto simp: conn_commit_def same_outside_def split: prod.splits)

lemma conn_close_frame:
  "conn_close env w = (r, w1) \<Longrightarrow>
     trace w1 = trace w @ [EvClose] \<and> same_outside w w1
       \<and> (r, engine w1) = srv_close env (engine w)"
  by (auto simp: conn_close_def same_outside_def split: prod.splits)

lemma connect_loop_frame:
  "connect_loop env k w = (r, w1) \<Longrightarrow>
     executed (trace w1) = executed (trace w) \<and> same_outside w w1"
proof (induction env k w arbitrary: r w1 rule: connect_loop.induct)
  case (1 env attempts w)
  show ?case
  proof (cases "attempts < MAX_RETRIES")
    case False
    with "1.prems" show ?thesis by (simp add: connect_loop.simps)
  next
    case lt: True
    obtain c w' where mc: "mariadb_connect env w = (c, w')" by (cases "mariadb_connect env w")
    then have fr: "executed (trace w') = executed (trace w)" "same_outside w w'"
      by (auto simp: mariadb_connect_def same_outside_def split: prod.splits)
    show ?thesis
    proof (cases c)
      case None
      with "1.prems" lt mc fr show ?thesis by (simp add: connect_loop.simps)
    next
      case (Some e)
      let ?w2 = "time_sleep RETRY_DELAY (py_print (attempt_failed_message attempts e) w')"
      have rec: "connect_loop env (attempts + 1) ?w2 = (r, w1)"
        using "1.prems" lt mc Some by (simp add: connect_loop.simps)
      from "1.IH"[OF lt mc[symmetric] Some rec] fr show ?thesis
        by (simp add: time_sleep_def py_print_def same_outside_def)
    qed
  qed
qed

lemma get_db_connection_frame:
  "get_db_connection env w = (r, w1) \<Longrightarrow>
     executed (trace w1) = executed (trace w) \<and> same_outside w w1"
  unfolding get_db_connection_def by (rule connect_loop_frame)

lemma create_database_kept:
  "create_database env new_db_name w = (r, w1) \<Longrightarrow> same_outside w w1"
  by (auto simp: create_database_def same_outside_def
        split: option.splits if_splits prod.splits sum.splits dest!: cur_execute_frameD)

lemma create_database_frame:
  assumes "create_database env new_db_name w = (None, w1)"
  shows "executed (trace w1) = executed (trace w) @ preamble new_db_name"
  using assms
  by (auto simp: create_database_def preamble_def split: option.splits if_splits prod.splits sum.splits
        dest!: cur_execute_frameD)

lemma import_commands_trace:
  "trace (import_commands env cmds w) =
     trace w @ concat (map statement_events (statement_results env cmds (engine w)))"
proof (induction cmds arbitrary: w)
  case Nil
  then show ?case by simp
next
  case (Cons c cmds)
  show ?case
  proof (cases "py_strip c \<noteq> []")
    case False
    then show ?thesis using Cons by simp
  next
    case True
    obtain r w1 where ex: "cur_execute env c w = (r, w1)" by (cases "cur_execute env c w")
    note fr = cur_execute_frame[OF ex]
    show ?thesis
    proof (cases r)
      case (Inl e)
      with True ex fr(1) fr(3)[symmetric] Cons[of "py_print (warning_message e) w1"] show ?thesis
        by (simp add: py_print_def error_of_def)
    next
      case (Inr rs)
      with True ex fr(1) fr(3)[symmetric] Cons[of w1] show ?thesis
        by (simp add: error_of_def)
    qed
  qed
qed

lemma statement_results_fst:
  "map fst (statement_results env cmds d) = filter (\<lambda>c. py_strip c \<noteq> []) cmds"
  by (induction cmds arbitrary: d) (auto split: prod.splits)

lemma executed_statement_events:
  "executed (concat (map statement_events rs)) = map fst rs"
proof (induction rs)
  case Nil
  then show ?case by simp
next
  case (Cons a rs)
  obtain s r where "a = (s, r)" by (cases a)
  then show ?case using Cons by (cases r) auto
qed

lemma import_commands_executed:
  "executed (trace (import_commands env cmds w)) =
     executed (trace w) @ filter (\<lambda>c. py_strip c \<noteq> []) cmds"
  by (simp add: import_commands_trace executed_statement_events statement_results_fst)

lemma import_commands_kept: "same_outside w (import_commands env cmds w)"
proof (induction cmds arbitrary: w)
  case Nil
  then show ?case by simp
next
  case (Cons c cmds)
  obtain r w1 where ex: "cur_execute env c w = (r, w1)" by (cases "cur_execute env c w")
  note k = cur_execute_frame(2)[OF ex]
  show ?case
  proof (cases r)
    case (Inl e)
    then show ?thesis
      using Cons[of "py_print (warning_message e) w1"] Cons[of w] ex k
      by (auto simp: same_outside_def py_print_def)
  next
    case (Inr rs)
    then show ?thesis using Cons[of w1] Cons[of w] ex k by (auto simp: same_outside_def)
  qed
qed


section \<open>Replay in the order of the dump (C4)\<close>

text \<open>
  The run of import\_dump once the connection is there, the optional statements have
  succeeded and the file is read: the loop over the pieces of the text as read, the
  commit, the close.
\<close>

lemma import_dump_run:
  assumes conn: "get_db_connection env w = (Inr (), w1)"
    and db: "create_database env new_db_name w1 = (None, w2)"
    and readable: "files w dump_file_path = Some txt"
    and commit: "conn_commit env (import_commands env (py_split (universal_newlines txt) semi) w2) = (k, w4)"
    and closed: "conn_close env w4 = (x, w5)"
  shows "import_dump env dump_file_path new_db_name w =
           ((case x of
               Some e \<Rightarrow> Inl (MariadbError e)
             | None \<Rightarrow>
                 (case k of
                    Some e \<Rightarrow> Inr (False, ''Error importing dump: '' @ e)
                  | None \<Rightarrow> Inr (True, ''Dump imported successfully''))), w5)"
proof -
  have f2: "files w2 dump_file_path = Some txt"
    using get_db_connection_frame[OF conn] create_database_kept[OF db] readable
    by (simp add: same_outside_def)
  have body: "import_body env dump_file_path new_db_name w1 =
      ((case k of Some e \<Rightarrow> Inl (MariadbError e) | None \<Rightarrow> Inr ()), w4)"
    using db f2 commit by (cases k) (simp_all add: import_body_def)
  show ?thesis
    using conn body closed by (cases x; cases k) (simp_all add: import_dump_def)
qed

lemma import_dump_executed:
  assumes conn: "get_db_connection env w = (Inr (), w1)"
    and db: "create_database env new_db_name w1 = (None, w2)"
    and readable: "files w dump_file_path = Some txt"
  shows "executed (trace (snd (import_dump env dump_file_path new_db_name w))) =
           executed (trace w) @ preamble new_db_name
             @ filter (\<lambda>command. py_strip command \<noteq> []) (py_split (universal_newlines txt) semi)"
proof -
  let ?w3 = "import_commands env (py_split (universal_newlines txt) semi) w2"
  obtain k w4 where cm: "conn_commit env ?w3 = (k, w4)" by (cases "conn_commit env ?w3")
  obtain x w5 where cl: "conn_close env w4 = (x, w5)" by (cases "conn_close env w4")
  have "snd (import_dump env dump_file_path new_db_name w) = w5"
    using import_dump_run[OF conn db readable cm cl] by simp
  moreover have "executed (trace w5) = executed (trace ?w3)"
    using conn_commit_frame[OF cm] conn_close_frame[OF cl] by simp
  ultimately show ?thesis
    using get_db_connection_frame[OF conn] create_database_frame[OF db]
    by (simp add: import_commands_executed)
qed

text \<open>
  C4.  Once the connection is there, the optional \<open>CREATE DATABASE\<close> and \<open>USE\<close> have
  succeeded and the file is read, import\_dump hands the engine, after the statements
  executed before the call and those two, exactly the non-blank pieces that splitting
  the text of the dump (as \<open>f.read()\<close> gives it) at every \<open>;\<close> gives, each once and in
  the order of the text.
\<close>

theorem C4_replay_in_order:
  assumes conn: "get_db_connection env w = (Inr (), w1)"
    and db: "create_database env new_db_name w1 = (None, w2)"
    and readable: "files w dump_file_path = Some txt"
  shows "executed (trace (snd (import_dump env dump_file_path new_db_name w))) =
           executed (trace w) @ preamble new_db_name
             @ filter (\<lambda>command. py_strip command \<noteq> []) (py_split (universal_newlines txt) semi)"
  using assms by (rule import_dump_executed)

text \<open>
  A dump of four pieces, one of them blank and one repeated, replayed into a database
  named \<open>copy\<close>.
\<close>

theorem C4_replay_in_order_witness:
  "executed (trace (snd (import_dump (scripted None (\<lambda>s. False) None) ''d.sql'' (Some ''copy'')
       (start [] [(''d.sql'', ''A; ;B;A'')])))) =
     [''CREATE DATABASE IF NOT EXISTS copy'', ''USE copy'', ''A'', ''B'', ''A'']"
proof -
  let ?E = "scripted None (\<lambda>s. False) None"
  let ?W = "start [] [(''d.sql'', ''A; ;B;A'')] :: string list world"
  let ?w1 = "snd (get_db_connection ?E ?W)"
  let ?w2 = "snd (create_database ?E (Some ''copy'') ?w1)"
  have "fst (get_db_connection ?E ?W) = Inr ()" by code_simp
  then have conn: "get_db_connection ?E ?W = (Inr (), ?w1)" by (simp add: prod_eq_iff)
  have "fst (create_database ?E (Some ''copy'') ?w1) = None" by code_simp
  then have db: "create_database ?E (Some ''copy'') ?w1 = (None, ?w2)" by (simp add: prod_eq_iff)
  have readable: "files ?W ''d.sql'' = Some ''A; ;B;A''" by (simp add: start_def)
  have rhs: "executed (trace ?W) @ preamble (Some ''copy'')
      @ filter (\<lambda>command. py_strip command \<noteq> []) (py_split (universal_newlines ''A; ;B;A'') semi) =
     [''CREATE DATABASE IF NOT EXISTS copy'', ''USE copy'', ''A'', ''B'', ''A'']"
    by code_simp
  show ?thesis using C4_replay_in_order[OF conn db readable] rhs by simp
qed

section \<open>Best-effort replay (C2)\<close>

text \<open>
  C2, as the code has it.  import\_dump returns \<open>success = True\<close> exactly when the
  connection is established, the optional \<open>CREATE DATABASE\<close> and \<open>USE\<close> succeed, the
  file is there, the final \<open>commit\<close> succeeds and the handle closes; it returns
  \<open>success = False\<close> exactly when the connection fails, or when one of the optional
  statements, the reading of the file or the commit fails and the handle closes.  No
  failure of a replayed statement enters these conditions.  When the replay starts,
  every non-blank piece is executed, in order, whatever the pieces before it did; a
  piece the engine refuses leaves one printed warning and nothing else; the pieces that
  took effect and the pieces that failed add up to the number of non-blank pieces (so
  one failure among \<open>N\<close> leaves \<open>N - 1\<close>); then come the commit and the close.
\<close>

theorem C2_best_effort_replay:
  assumes conn: "get_db_connection env w = (c, w1)"
    and db: "create_database env new_db_name w1 = (d, w2)"
  shows "(fst (import_dump env dump_file_path new_db_name w) = Inr (True, ''Dump imported successfully'')) =
           (c = Inr () \<and> d = None
             \<and> (\<exists>txt. files w dump_file_path = Some txt
                  \<and> fst (conn_commit env (import_commands env (py_split (universal_newlines txt) semi) w2)) = None)
             \<and> fst (conn_close env (snd (import_body env dump_file_path new_db_name w1))) = None)
       \<and> (\<exists>m. fst (import_dump env dump_file_path new_db_name w) = Inr (False, m)) =
           ((\<exists>e. c = Inl e)
             \<or> (d \<noteq> None \<or> files w dump_file_path = None
                  \<or> (\<exists>txt. files w dump_file_path = Some txt
                       \<and> fst (conn_commit env (import_commands env (py_split (universal_newlines txt) semi) w2)) \<noteq> None))
               \<and> fst (conn_close env (snd (import_body env dump_file_path new_db_name w1))) = None)
       \<and> (\<forall>txt. c = Inr () \<and> d = None \<and> files w dump_file_path = Some txt \<longrightarrow>
            map fst (statement_results env (py_split (universal_newlines txt) semi) (engine w2)) =
              filter (\<lambda>command. py_strip command \<noteq> []) (py_split (universal_newlines txt) semi)
            \<and> length (filter (\<lambda>x. snd x = None) (statement_results env (py_split (universal_newlines txt) semi) (engine w2)))
                + length (filter (\<lambda>x. snd x \<noteq> None) (statement_results env (py_split (universal_newlines txt) semi) (engine w2)))
                = length (filter (\<lambda>command. py_strip command \<noteq> []) (py_split (universal_newlines txt) semi))
            \<and> trace (snd (import_dump env dump_file_path new_db_name w)) =
                trace w2
                  @ concat (map statement_events (statement_results env (py_split (universal_newlines txt) semi) (engine w2)))
                  @ [EvCommit (fst (conn_commit env (import_commands env (py_split (universal_newlines txt) semi) w2))), EvClose])"
proof (intro conjI allI impI)
  have f2: "files w2 = files w"
    using get_db_connection_frame[OF conn] create_database_kept[OF db]
    by (simp add: same_outside_def)
  let ?close = "fst (conn_close env (snd (import_body env dump_file_path new_db_name w1)))"
  obtain b wb where body: "import_body env dump_file_path new_db_name w1 = (b, wb)"
    by (cases "import_body env dump_file_path new_db_name w1")
  obtain x wx where cl: "conn_close env wb = (x, wx)" by (cases "conn_close env wb")
  have bodyok: "(b = Inr ()) = (d = None
             \<and> (\<exists>txt. files w dump_file_path = Some txt
                  \<and> fst (conn_commit env (import_commands env (py_split (universal_newlines txt) semi) w2)) = None))"
    using body db f2
    by (auto simp: import_body_def split: prod.splits option.splits)
  have res: "fst (import_dump env dump_file_path new_db_name w) =
      (case c of
         Inl e \<Rightarrow> Inr (False, ''Error importing dump: '' @ str_exn e)
       | Inr u \<Rightarrow>
          (case x of
             Some e \<Rightarrow> Inl (MariadbError e)
           | None \<Rightarrow>
              (case b of
                 Inl e \<Rightarrow> Inr (False, ''Error importing dump: '' @ str_exn e)
               | Inr u \<Rightarrow> Inr (True, ''Dump imported successfully''))))"
    using conn body cl by (simp add: import_dump_def split: sum.splits option.splits)
  show "(fst (import_dump env dump_file_path new_db_name w) = Inr (True, ''Dump imported successfully'')) =
           (c = Inr () \<and> d = None
             \<and> (\<exists>txt. files w dump_file_path = Some txt
                  \<and> fst (conn_commit env (import_commands env (py_split (universal_newlines txt) semi) w2)) = None)
             \<and> ?close = None)"
    using res bodyok body cl by (cases c; cases x; cases b) auto
  have bodybad: "(\<exists>e. b = Inl e) = (d \<noteq> None \<or> files w dump_file_path = None
                  \<or> (\<exists>txt. files w dump_file_path = Some txt
                       \<and> fst (conn_commit env (import_commands env (py_split (universal_newlines txt) semi) w2)) \<noteq> None))"
    using bodyok by (cases b) auto
  show "(\<exists>m. fst (import_dump env dump_file_path new_db_name w) = Inr (False, m)) =
           ((\<exists>e. c = Inl e)
             \<or> (d \<noteq> None \<or> files w dump_file_path = None
                  \<or> (\<exists>txt. files w dump_file_path = Some txt
                       \<and> fst (conn_commit env (import_commands env (py_split (universal_newlines txt) semi) w2)) \<noteq> None))
               \<and> ?close = None)"
    unfolding bodybad[symmetric] using res body cl by (cases c; cases x; cases b) auto
  fix dump_text
  let ?rs = "statement_results env (py_split (universal_newlines dump_text) semi) (engine w2)"
  let ?w3 = "import_commands env (py_split (universal_newlines dump_text) semi) w2"
  show fsts: "map fst ?rs =
      filter (\<lambda>command. py_strip command \<noteq> []) (py_split (universal_newlines dump_text) semi)"
    by (rule statement_results_fst)
  have "length (filter (\<lambda>x. snd x = None) ?rs) + length (filter (\<lambda>x. snd x \<noteq> None) ?rs)
      = length (map fst ?rs)"
    using sum_length_filter_compl[of "\<lambda>x. snd x = None" ?rs] by simp
  then show "length (filter (\<lambda>x. snd x = None) ?rs) + length (filter (\<lambda>x. snd x \<noteq> None) ?rs)
      = length (filter (\<lambda>command. py_strip command \<noteq> []) (py_split (universal_newlines dump_text) semi))"
    by (simp only: fsts)
  assume ok: "c = Inr () \<and> d = None \<and> files w dump_file_path = Some dump_text"
  obtain k w4 where cm: "conn_commit env ?w3 = (k, w4)" by (cases "conn_commit env ?w3")
  obtain y w5 where cl5: "conn_close env w4 = (y, w5)" by (cases "conn_close env w4")
  have "snd (import_dump env dump_file_path new_db_name w) = w5"
    using import_dump_run[OF _ _ _ cm cl5, of w w1 new_db_name dump_file_path] conn db ok by simp
  then show "trace (snd (import_dump env dump_file_path new_db_name w)) =
      trace w2 @ concat (map statement_events ?rs) @ [EvCommit (fst (conn_commit env ?w3)), EvClose]"
    using conn_commit_frame[OF cm] conn_close_frame[OF cl5] cm by (simp add: import_commands_trace)
qed

text \<open>
  A dump of three statements whose second one the engine refuses: the result is a
  success, the warning is printed, and the two other statements took effect.
\<close>

theorem C2_best_effort_replay_witness:
  "fst (import_dump (scripted None (\<lambda>s. s = ''BOGUS'') None) ''d.sql'' None
          (start [] [(''d.sql'', ''A;BOGUS;B;'')])) = Inr (True, ''Dump imported successfully'')
   \<and> trace (snd (import_dump (scripted None (\<lambda>s. s = ''BOGUS'') None) ''d.sql'' None
          (start [] [(''d.sql'', ''A;BOGUS;B;'')]))) =
       [EvConnect None, EvExecute ''A'' None,
        EvExecute ''BOGUS'' (Some ''You have an error in your SQL syntax''),
        EvPrint ''Warning: You have an error in your SQL syntax - Continuing with next command'',
        EvExecute ''B'' None, EvCommit None, EvClose]
   \<and> engine (snd (import_dump (scripted None (\<lambda>s. s = ''BOGUS'') None) ''d.sql'' None
          (start [] [(''d.sql'', ''A;BOGUS;B;'')]))) = [''A'', ''B'']"
proof -
  let ?E = "scripted None (\<lambda>s. s = ''BOGUS'') None"
  let ?W = "start [] [(''d.sql'', ''A;BOGUS;B;'')] :: string list world"
  let ?w1 = "snd (get_db_connection ?E ?W)"
  let ?w2 = "snd (create_database ?E None ?w1)"
  let ?pieces = "py_split (universal_newlines ''A;BOGUS;B;'') semi"
  have c: "fst (get_db_connection ?E ?W) = Inr ()" by code_simp
  have d: "fst (create_database ?E None ?w1) = None" by code_simp
  have conn: "get_db_connection ?E ?W = (fst (get_db_connection ?E ?W), ?w1)" by simp
  have db: "create_database ?E None ?w1 = (fst (create_database ?E None ?w1), ?w2)" by simp
  have readable: "files ?W ''d.sql'' = Some ''A;BOGUS;B;''" by (simp add: start_def)
  have commit: "fst (conn_commit ?E (import_commands ?E ?pieces ?w2)) = None"
    by code_simp
  have closes: "fst (conn_close ?E (snd (import_body ?E ''d.sql'' None ?w1))) = None"
    by code_simp
  have rhs: "trace ?w2
       @ concat (map statement_events (statement_results ?E ?pieces (engine ?w2)))
       @ [EvCommit None, EvClose] =
       [EvConnect None, EvExecute ''A'' None,
        EvExecute ''BOGUS'' (Some ''You have an error in your SQL syntax''),
        EvPrint ''Warning: You have an error in your SQL syntax - Continuing with next command'',
        EvExecute ''B'' None, EvCommit None, EvClose]"
    by code_simp
  have final: "engine (snd (import_dump ?E ''d.sql'' None ?W)) = [''A'', ''B'']" by code_simp
  note c2 = C2_best_effort_replay[OF conn db, of "''d.sql''"]
  have flag: "fst (import_dump ?E ''d.sql'' None ?W) = Inr (True, ''Dump imported successfully'')"
    using c2 c d readable commit closes by simp
  have tr: "trace (snd (import_dump ?E ''d.sql'' None ?W)) = trace ?w2
       @ concat (map statement_events (statement_results ?E ?pieces (engine ?w2)))
       @ [EvCommit None, EvClose]"
    using c2 c d readable commit by simp
  show ?thesis using flag tr rhs final by simp
qed

text \<open>
  C2 as stated fails where it says that the result is a success whenever the connection
  is established, the database creation succeeds and the file is readable: \<open>commit\<close>
  is inside the \<open>try\<close> block, and when it raises the result is a failure.
\<close>

theorem C2_commit_failure:
  "fst (get_db_connection (scripted None (\<lambda>s. False) (Some ''Deadlock found when trying to get lock''))
          (start [] [(''d.sql'', ''SELECT 1;'')])) = Inr ()
   \<and> files (start [] [(''d.sql'', ''SELECT 1;'')] :: string list world) ''d.sql'' = Some ''SELECT 1;''
   \<and> fst (import_dump (scripted None (\<lambda>s. False) (Some ''Deadlock found when trying to get lock''))
          ''d.sql'' None (start [] [(''d.sql'', ''SELECT 1;'')]))
       = Inr (False, ''Error importing dump: Deadlock found when trying to get lock'')"
  by code_simp

section \<open>Uniform results (C3)\<close>



section \<open>The layout of the exported file (C5)\<close>

lemma f_writes_room:
  "(\<And>contents. \<not> unstorable w p contents) \<Longrightarrow> f_writes w p buf ss = (None, buf @ concat ss)"
  by (induction ss arbitrary: buf) simp_all

lemma write_rows_join:
  assumes room: "\<And>contents. \<not> unstorable w p contents"
  shows "rows \<noteq> [] \<Longrightarrow> n = i + length rows \<Longrightarrow>
     write_rows w p n i rows buf =
       (None, buf @ py_join ('','' @ [nl]) (map row_text rows) @ '';'' @ [nl])"
proof (induction rows arbitrary: i buf)
  case Nil
  then show ?case by simp
next
  case (Cons row rest)
  show ?case
  proof (cases rest)
    case Nil
    with Cons.prems show ?thesis by (simp add: room)
  next
    case (Cons r2 rest2)
    have "write_rows w p n (i + 1) rest (buf @ row_text row @ '','' @ [nl]) =
            (None, (buf @ row_text row @ '','' @ [nl])
               @ py_join ('','' @ [nl]) (map row_text rest) @ '';'' @ [nl])"
      using Cons.prems Cons by (intro Cons.IH) simp_all
    then show ?thesis using Cons.prems Cons by (simp add: room)
  qed
qed

lemma write_data_text:
  assumes room: "\<And>contents. \<not> unstorable w p contents"
  shows "write_data w p t rs buf =
     (None, buf @ (if fetched rs = [] then []
            else insert_head t (description rs)
                   @ py_join ('','' @ [nl]) (map row_text (fetched rs)) @ '';'' @ [nl]))"
  by (simp add: write_data_def write_rows_join[OF room] room)

lemma snapshot_of_kept: "snapshot_of env table w = (r, w1) \<Longrightarrow> same_outside w w1"
  by (auto simp: snapshot_of_def same_outside_def split: prod.splits sum.splits
        dest!: cur_execute_frameD)

lemma export_table_spec:
  assumes snap: "snapshot_of env table w = (Some s, w1)"
    and room: "\<And>contents. \<not> unstorable w p contents"
  shows "export_table env p table buf w = ((None, buf @ spec_section s), w1)"
proof -
  obtain r1 wa where e1: "cur_execute env (''SHOW CREATE TABLE '' @ bq (py_str table)) w = (r1, wa)"
    by (cases "cur_execute env (''SHOW CREATE TABLE '' @ bq (py_str table)) w")
  from snap e1 obtain rs where r1: "r1 = Inr rs"
    by (cases r1) (simp_all add: snapshot_of_def)
  from snap e1 r1 obtain c where fs: "fetchone_second rs = Inr c"
    by (cases "fetchone_second rs") (simp_all add: snapshot_of_def)
  obtain r2 wb where e2: "cur_execute env (''SELECT * FROM '' @ bq (py_str table)) wa = (r2, wb)"
    by (cases "cur_execute env (''SELECT * FROM '' @ bq (py_str table)) wa")
  from snap e1 r1 fs e2 obtain rows where r2: "r2 = Inr rows"
    by (cases r2) (simp_all add: snapshot_of_def)
  from snap e1 r1 fs e2 r2
  have s: "s = \<lparr>snap_table = py_str table, snap_create = py_str c,
                snap_columns = description rows, snap_rows = fetched rows\<rparr>" and w1: "w1 = wb"
    by (simp_all add: snapshot_of_def)
  have rooma: "\<And>contents. \<not> unstorable wa p contents"
    using cur_execute_frame(2)[OF e1] room by (simp add: same_outside_def)
  have roomb: "\<And>contents. \<not> unstorable wb p contents"
    using cur_execute_frame(2)[OF e2] rooma by (simp add: same_outside_def)
  have "export_table env p table buf w =
      (write_data wb p (py_str table) rows
          (buf @ structure_comment (py_str table) @ drop_line (py_str table)
             @ create_text (py_str c) @ data_comment (py_str table)), wb)"
    using e1 r1 fs e2 r2
    by (simp add: export_table_def room rooma)
  moreover have "write_data wb p (py_str table) rows
          (buf @ structure_comment (py_str table) @ drop_line (py_str table)
             @ create_text (py_str c) @ data_comment (py_str table))
       = (None, buf @ spec_section s)"
    by (simp add: s write_data_text[OF roomb] spec_section_def spec_insert_def insert_head_def
          structure_comment_def drop_line_def create_text_def data_comment_def spec_drop_def)
  ultimately show ?thesis using w1 by simp
qed

lemma export_tables_spec:
  "table_snapshots env tables w = (Some snaps, w1) \<Longrightarrow>
   (\<And>contents. \<not> unstorable w p contents) \<Longrightarrow>
     export_tables env p tables buf w = ((None, buf @ concat (map spec_section snaps)), w1)
     \<and> map snap_table snaps = map py_str tables"
proof (induction tables arbitrary: w snaps buf w1)
  case Nil
  then show ?case by simp
next
  case (Cons t ts)
  obtain o1 wa where so: "snapshot_of env t w = (o1, wa)" by (cases "snapshot_of env t w")
  with Cons.prems(1) obtain s where o1: "o1 = Some s" by (cases o1) simp_all
  obtain o2 wb where ts: "table_snapshots env ts wa = (o2, wb)"
    by (cases "table_snapshots env ts wa")
  with Cons.prems(1) so o1 obtain ss where o2: "o2 = Some ss" by (cases o2) simp_all
  from Cons.prems(1) so o1 ts o2 have eq: "snaps = s # ss" "w1 = wb" by simp_all
  have name: "snap_table s = py_str t"
    using so o1 by (auto simp: snapshot_of_def split: prod.splits sum.splits)
  have rooma: "\<And>contents. \<not> unstorable wa p contents"
    using snapshot_of_kept[OF so] Cons.prems(2) by (simp add: same_outside_def)
  from Cons.IH[OF ts[unfolded o2] rooma, of "buf @ spec_section s"]
    export_table_spec[OF so[unfolded o1] Cons.prems(2), of buf]
  show ?case using eq name by simp
qed

lemma use_database_kept: "use_database env db_name w = (r, w1) \<Longrightarrow> same_outside w w1"
  by (auto simp: use_database_def same_outside_def
        split: option.splits if_splits prod.splits sum.splits dest!: cur_execute_frameD)

lemma export_dump_writes:
  assumes conn: "get_db_connection env w = (Inr (), w1)"
    and use: "use_database env db_name w1 = (None, w2)"
    and listed: "cur_execute env ''SHOW TABLES'' w2 = (Inr rs, w3)"
    and names: "first_columns (fetched rs) = Inr tables"
    and snaps: "table_snapshots env tables w3 = (Some snaps, w4)"
    and writable: "output_file_path \<notin> unwritable w"
    and room: "\<And>contents. \<not> unstorable w output_file_path contents"
  shows "fst (export_dump env output_file_path db_name w) =
           (case fst (srv_close env (engine w4)) of
              None \<Rightarrow> Inr (True, ''Dump exported successfully'')
            | Some e \<Rightarrow> Inl (MariadbError e))
     \<and> files (snd (export_dump env output_file_path db_name w)) output_file_path =
         Some (header_text (now w) (db_label db_name) @ concat (map spec_section snaps))
     \<and> map snap_table snaps = map py_str tables"
proof -
  have s3: "same_outside w w3"
    using get_db_connection_frame[OF conn] use_database_kept[OF use] cur_execute_frame(2)[OF listed]
    by (simp add: same_outside_def)
  have room3: "\<And>contents. \<not> unstorable w3 output_file_path contents"
    using s3 room by (simp add: same_outside_def)
  let ?text = "header_text (now w) (db_label db_name) @ concat (map spec_section snaps)"
  let ?w5 = "w4\<lparr>files := (files w4)(output_file_path \<mapsto> ?text)\<rparr>"
  note ex = export_tables_spec[OF snaps room3, of "header_text (now w) (db_label db_name)"]
  have head: "f_writes w3 output_file_path [] (header_lines (now w3) (db_label db_name)) =
      (None, header_text (now w) (db_label db_name))"
    using s3 by (simp add: room room3 header_lines_def header_text_def same_outside_def)
  have w3: "output_file_path \<notin> unwritable w3" using s3 writable by (simp add: same_outside_def)
  have body: "export_body env output_file_path db_name w1 = (Inr (), ?w5)"
    using use listed names ex w3 by (simp add: export_body_def head)
  obtain x w6 where cl: "conn_close env ?w5 = (x, w6)" by (cases "conn_close env ?w5")
  have x: "x = fst (srv_close env (engine w4))" and f6: "files w6 = files ?w5"
    using conn_close_frame[OF cl] by (auto simp: same_outside_def dest: arg_cong[where f = fst])
  have "export_dump env output_file_path db_name w =
      ((case x of None \<Rightarrow> Inr (True, ''Dump exported successfully'')
                | Some e \<Rightarrow> Inl (MariadbError e)), w6)"
    using conn body cl by (cases x) (simp_all add: export_dump_def)
  then show ?thesis using x f6 ex by simp
qed

text \<open>
  C5.  When the connection is there, the optional \<open>USE\<close> succeeds, the engine answers
  \<open>SHOW TABLES\<close> and the two queries of every table, and the file can be opened and
  written, export\_dump succeeds (unless closing the handle raises afterwards) and the
  file holds the header followed, for each table in the order \<open>SHOW TABLES\<close> listed
  them, by the section of that table: the \<open>DROP TABLE IF EXISTS\<close> statement, the create
  statement the engine reported, and one \<open>INSERT\<close> listing all the rows the engine
  returned, or no \<open>INSERT\<close> at all when it returned none.
\<close>

theorem C5_export_layout:
  assumes conn: "get_db_connection env w = (Inr (), w1)"
    and use: "use_database env db_name w1 = (None, w2)"
    and listed: "cur_execute env ''SHOW TABLES'' w2 = (Inr rs, w3)"
    and names: "first_columns (fetched rs) = Inr tables"
    and snaps: "table_snapshots env tables w3 = (Some snaps, w4)"
    and writable: "output_file_path \<notin> unwritable w"
    and room: "\<And>contents. \<not> unstorable w output_file_path contents"
  shows "fst (export_dump env output_file_path db_name w) =
           (case fst (srv_close env (engine w4)) of
              None \<Rightarrow> Inr (True, ''Dump exported successfully'')
            | Some e \<Rightarrow> Inl (MariadbError e))
     \<and> files (snd (export_dump env output_file_path db_name w)) output_file_path =
         Some (header_text (now w) (db_label db_name) @ concat (map spec_section snaps))
     \<and> map snap_table snaps = map py_str tables"
  using assms by (rule export_dump_writes)

text \<open>A table of two rows, the second holding \<open>None\<close>: one \<open>INSERT\<close> lists both.\<close>

theorem C5_export_layout_witness:
  "fst (export_dump (one_table ''ab'') ''dump.sql'' None
       (start (Some [[PyOther ''ab''], [PyNone]]) [])) = Inr (True, ''Dump exported successfully'')
   \<and> files (snd (export_dump (one_table ''ab'') ''dump.sql'' None
       (start (Some [[PyOther ''ab''], [PyNone]]) []))) ''dump.sql'' =
     Some (''-- Database dump generated on 2024-05-01 10:00:00.000000'' @ [nl]
       @ ''-- Database: flight_reservation'' @ [nl, nl, nl]
       @ ''-- Table structure for table `t`'' @ [nl]
       @ ''DROP TABLE IF EXISTS `t`;'' @ [nl]
       @ ''CREATE TABLE `t` (`c` text);'' @ [nl, nl]
       @ ''-- Dumping data for table `t`'' @ [nl]
       @ ''INSERT INTO `t` (`c`) VALUES'' @ [nl]
       @ ''('' @ [quote] @ ''ab'' @ [quote] @ ''),'' @ [nl]
       @ ''(NULL);'' @ [nl])"
proof -
  let ?E = "one_table ''ab''"
  let ?W = "start (Some [[PyOther ''ab''], [PyNone]]) [] :: py_value list list option world"
  let ?w1 = "snd (get_db_connection ?E ?W)"
  let ?w2 = "snd (use_database ?E None ?w1)"
  let ?rs = "\<lparr>description = [''Tables_in_flight_reservation''], fetched = [[PyOther ''t'']]\<rparr>"
  let ?w3 = "snd (cur_execute ?E ''SHOW TABLES'' ?w2)"
  let ?snaps = "[\<lparr>snap_table = ''t'', snap_create = ''CREATE TABLE `t` (`c` text)'',
                  snap_columns = [''c''], snap_rows = [[PyOther ''ab''], [PyNone]]\<rparr>]"
  let ?w4 = "snd (table_snapshots ?E [PyOther ''t''] ?w3)"
  have "fst (get_db_connection ?E ?W) = Inr ()" by code_simp
  then have conn: "get_db_connection ?E ?W = (Inr (), ?w1)" by (simp add: prod_eq_iff)
  have "fst (use_database ?E None ?w1) = None" by code_simp
  then have use: "use_database ?E None ?w1 = (None, ?w2)" by (simp add: prod_eq_iff)
  have "fst (cur_execute ?E ''SHOW TABLES'' ?w2) = Inr ?rs" by code_simp
  then have listed: "cur_execute ?E ''SHOW TABLES'' ?w2 = (Inr ?rs, ?w3)"
    by (simp add: prod_eq_iff)
  have names: "first_columns (fetched ?rs) = Inr [PyOther ''t'']" by simp
  have "fst (table_snapshots ?E [PyOther ''t''] ?w3) = Some ?snaps" by code_simp
  then have snaps: "table_snapshots ?E [PyOther ''t''] ?w3 = (Some ?snaps, ?w4)"
    by (simp add: prod_eq_iff)
  have writable: "''dump.sql'' \<notin> unwritable ?W" by (simp add: start_def)
  have room: "\<And>contents. \<not> unstorable ?W ''dump.sql'' contents" by (simp add: start_def)
  have closes: "fst (srv_close ?E (engine ?w4)) = None" by (simp add: one_table_def)
  have rhs: "header_text (now ?W) (db_label None) @ concat (map spec_section ?snaps) =
       ''-- Database dump generated on 2024-05-01 10:00:00.000000'' @ [nl]
       @ ''-- Database: flight_reservation'' @ [nl, nl, nl]
       @ ''-- Table structure for table `t`'' @ [nl]
       @ ''DROP TABLE IF EXISTS `t`;'' @ [nl]
       @ ''CREATE TABLE `t` (`c` text);'' @ [nl, nl]
       @ ''-- Dumping data for table `t`'' @ [nl]
       @ ''INSERT INTO `t` (`c`) VALUES'' @ [nl]
       @ ''('' @ [quote] @ ''ab'' @ [quote] @ ''),'' @ [nl]
       @ ''(NULL);'' @ [nl]"
    by code_simp
  show ?thesis
    using C5_export_layout[OF conn use listed names snaps writable room] rhs closes
    by simp
qed

section \<open>Export, then replay (C1)\<close>
















section \<open>The chunks of threaded\_import (C8, C10)\<close>

lemma import_body_kept:
  "import_body env p n w = (r, w1) \<Longrightarrow> same_outside w w1"
proof -
  assume a: "import_body env p n w = (r, w1)"
  obtain d w2 where db: "create_database env n w = (d, w2)" by (cases "create_database env n w")
  note k2 = create_database_kept[OF db]
  show ?thesis
  proof (cases d)
    case (Some e)
    with a db k2 show ?thesis by (simp add: import_body_def)
  next
    case None
    show ?thesis
    proof (cases "files w2 p")
      case nofile: None
      with a db None k2 show ?thesis by (simp add: import_body_def)
    next
      case (Some contents)
      let ?w3 = "import_commands env (py_split (universal_newlines contents) semi) w2"
      obtain k w4 where cm: "conn_commit env ?w3 = (k, w4)" by (cases "conn_commit env ?w3")
      have "w1 = w4" using a db None Some cm by (cases k) (simp_all add: import_body_def)
      then show ?thesis
        using conn_commit_frame[OF cm]
          import_commands_kept[of w2 env "py_split (universal_newlines contents) semi"] k2
        by (simp add: same_outside_def)
    qed
  qed
qed

lemma import_dump_kept: "same_outside w (snd (import_dump env p n w))"
proof -
  obtain c w1 where conn: "get_db_connection env w = (c, w1)" by (cases "get_db_connection env w")
  note k1 = get_db_connection_frame[OF conn]
  show ?thesis
  proof (cases c)
    case (Inl e)
    with conn k1 show ?thesis by (simp add: import_dump_def)
  next
    case (Inr u)
    obtain b w2 where body: "import_body env p n w1 = (b, w2)" by (cases "import_body env p n w1")
    obtain x w3 where cl: "conn_close env w2 = (x, w3)" by (cases "conn_close env w2")
    have "snd (import_dump env p n w) = w3"
      using conn Inr body cl by (cases x; cases b) (simp_all add: import_dump_def)
    then show ?thesis
      using import_body_kept[OF body] conn_close_frame[OF cl] k1 by (simp add: same_outside_def)
  qed
qed

lemma import_chunk_world:
  "snd (import_chunk env c name results w) = snd (import_dump env c (Some name) w)"
  by (simp add: import_chunk_def split: prod.splits sum.splits)

lemma run_workers_kept:
  "same_outside w (snd (run_workers env pre i chunks results w))"
proof (induction chunks arbitrary: i results w)
  case Nil
  then show ?case by simp
next
  case (Cons c chunks)
  let ?w1 = "snd (import_dump env c (Some (thread_db_name pre i)) w)"
  obtain res where "import_chunk env c (thread_db_name pre i) results w = (res, ?w1)"
    using import_chunk_world[of env c "thread_db_name pre i" results w]
    by (cases "import_chunk env c (thread_db_name pre i) results w") simp
  then show ?case
    using Cons[of ?w1 "i + 1" res] import_dump_kept[of w env c "Some (thread_db_name pre i)"]
    by (simp add: same_outside_def)
qed

lemma cleanup_absent:
  "files w p = None \<Longrightarrow> cleanup_chunks (replicate n p) w = w"
  by (induction n) (simp_all add: os_remove_def)

lemma cleanup_removes:
  assumes "0 < n" "files w p \<noteq> None" "p \<notin> undeletable w"
  shows "cleanup_chunks (replicate n p) w = w\<lparr>files := (files w)(p := None)\<rparr>"
proof -
  from assms(1) obtain m where n: "n = Suc m" by (cases n) simp_all
  from assms(2) obtain y where y: "files w p = Some y" by auto
  have "cleanup_chunks (replicate n p) w =
      cleanup_chunks (replicate m p) (w\<lparr>files := (files w)(p := None)\<rparr>)"
    using y assms(3) n by (simp add: os_remove_def)
  then show ?thesis by (simp add: cleanup_absent)
qed

text \<open>
  C10.  When at least one thread is asked for and the dump file is there and may be
  removed, the file is gone after threaded\_import, and no other file has changed: the
  list of chunk files is the path of the dump itself, repeated.
\<close>

theorem C10_cleanup_removes_dump:
  assumes "0 < num_threads" and "files w dump_file_path = Some contents"
    and "dump_file_path \<notin> undeletable w"
  shows "files (snd (threaded_import env dump_file_path db_name_prefix num_threads w)) =
           (files w)(dump_file_path := None)"
proof -
  let ?chunks = "split_dump_file dump_file_path num_threads"
  let ?w1 = "snd (run_workers env db_name_prefix 0 ?chunks [] w)"
  note kept = run_workers_kept[of w env db_name_prefix 0 ?chunks "[]", unfolded same_outside_def]
  have "snd (threaded_import env dump_file_path db_name_prefix num_threads w) =
      cleanup_chunks ?chunks ?w1"
    by (simp add: threaded_import_def split: prod.splits)
  moreover have "cleanup_chunks ?chunks ?w1 = ?w1\<lparr>files := (files ?w1)(dump_file_path := None)\<rparr>"
    unfolding split_dump_file_def
    using assms kept by (intro cleanup_removes) (simp_all add: split_dump_file_def)
  ultimately show ?thesis using kept by simp
qed

text \<open>Four threads: the dump is removed, the file next to it is kept.\<close>

theorem C10_cleanup_removes_dump_witness:
  "files (snd (threaded_import (scripted None (\<lambda>s. False) None) ''dump.sql'' ''bench'' 4
       (start [] [(''dump.sql'', ''A;B''), (''other.sql'', ''C'')]))) ''dump.sql'' = None
   \<and> files (snd (threaded_import (scripted None (\<lambda>s. False) None) ''dump.sql'' ''bench'' 4
       (start [] [(''dump.sql'', ''A;B''), (''other.sql'', ''C'')]))) ''other.sql'' = Some ''C''"
proof -
  let ?W = "start [] [(''dump.sql'', ''A;B''), (''other.sql'', ''C'')] :: string list world"
  have a: "(0::int) < 4" by simp
  have b: "files ?W ''dump.sql'' = Some ''A;B''" by (simp add: start_def)
  have c: "''dump.sql'' \<notin> undeletable ?W" by (simp add: start_def)
  show ?thesis using C10_cleanup_removes_dump[OF a b c] by (simp add: start_def)
qed

text \<open>
  C8 does not hold of split\_dump\_file as it is: for two chunks it gives the path of the
  dump twice, so each worker replays the whole dump into its own database and every
  statement is executed once per worker.
\<close>

theorem C8_workers_replay_whole_dump:
  "split_dump_file ''dump.sql'' 2 = [''dump.sql'', ''dump.sql'']
   \<and> executed (trace (snd (threaded_import (scripted None (\<lambda>s. False) None) ''dump.sql'' ''bench'' 2
        (start [] [(''dump.sql'', ''A;B'')])))) =
      [''CREATE DATABASE IF NOT EXISTS bench_thread_0'', ''USE bench_thread_0'', ''A'', ''B'',
       ''CREATE DATABASE IF NOT EXISTS bench_thread_1'', ''USE bench_thread_1'', ''A'', ''B'']"
  by code_simp

end
